theory Spec2Isabelle
  imports Complex_Main
begin

section \<open>Data model of the prompt API (server/controllers/smartPromptController.js)\<close>

text \<open>
  Identifiers are the strings the handlers compare (\<^verbatim>\<open>creator.toString()\<close>,
  \<^verbatim>\<open>req.userId\<close>, \<^verbatim>\<open>req.params.id\<close>).  A prompt document carries the fields the
  controller reads or writes.  Numbers that arrive as JSON are rationals: the
  handlers only compare them with 1 and 5 and divide counts.
\<close>

type_synonym uid = string
type_synonym pid = string

record user =
  user_id :: uid
  username :: string
  email :: string

record prompt =
  pid :: pid
  creator :: uid
  title :: string
  description :: string
  category :: string
  tags :: "string list"
  visibility :: string
  sharedWith :: "uid list"
  ratings :: "(uid \<times> rat) list"
  averageRating :: rat

text \<open>The record store: the prompt collection and the user collection that
  \<^verbatim>\<open>populate('creator', 'username email')\<close> reads.\<close>

record store =
  prompts :: "prompt list"
  users :: "user list"

text \<open>\<^verbatim>\<open>req.body\<close> of create and update: any subset of the fields.\<close>

record prompt_body =
  b_creator :: "uid option"
  b_title :: "string option"
  b_description :: "string option"
  b_category :: "string option"
  b_tags :: "string list option"
  b_visibility :: "string option"
  b_sharedWith :: "uid list option"

text \<open>A query-string value is absent, a string, or an array of strings
  (\<^verbatim>\<open>?visibility=a&visibility=b\<close>).\<close>

datatype qvalue = QAbsent | QStr string | QArr "string list"

record list_query =
  q_page :: "nat option"
  q_limit :: "nat option"
  q_category :: "string option"
  q_search :: "string option"
  q_visibility :: qvalue
  q_userId :: "string option"
  q_favorites :: "string option"
  q_sharedWith :: "string option"
  q_accessibleBy :: "string option"
  q_sort :: "string option"

text \<open>The query object \<^verbatim>\<open>query\<close> that getPrompts assembles: one slot per key it can
  assign.  The key \<^verbatim>\<open>$or\<close> is a single slot, as in the JavaScript object.\<close>

datatype vis_cond = VEq string | VIn "string list"

datatype clause =
    ByVisibility string
  | ByCreator uid
  | BySharedWith uid
  | TitleRegex string
  | DescriptionRegex string
  | TagsRegex string

record mongo_query =
  m_visibility :: "vis_cond option"
  m_creator :: "uid option"
  m_ratings_userId :: "uid option"
  m_sharedWith :: "uid option"
  m_or :: "clause list option"
  m_category :: "string option"

record listing =
  res_prompts :: "(prompt \<times> user option) list"
  res_totalPages :: "nat option"
  res_totalCount :: nat
  res_currentPage :: nat

datatype payload =
    Message string
  | Doc prompt
  | Populated prompt "user option"
  | Listing listing

record response =
  status :: nat
  json :: payload

section \<open>Store operations used by the handlers\<close>

text \<open>JavaScript truthiness of an optional string: \<^verbatim>\<open>undefined\<close> and \<^verbatim>\<open>''\<close> are falsy.\<close>

definition truthy :: "string option \<Rightarrow> bool" where
  "truthy v = (case v of None \<Rightarrow> False | Some s \<Rightarrow> s \<noteq> [])"

definition findById :: "prompt list \<Rightarrow> pid \<Rightarrow> prompt option" where
  "findById ps i = find (\<lambda>p. pid p = i) ps"

definition populate :: "user list \<Rightarrow> prompt \<Rightarrow> user option" where
  "populate us p = find (\<lambda>u. user_id u = creator p) us"

text \<open>Modelled from the spec: the record store's \<^verbatim>\<open>$regex\<close> operator with option
  \<^verbatim>\<open>i\<close> belongs to the database, not to this repository; for a pattern of plain
  characters it is the spec's case-insensitive substring match.\<close>

definition lower :: "char \<Rightarrow> char" where
  "lower c = (if (65::nat) \<le> of_char c \<and> of_char c \<le> (90::nat)
              then (case c of Char b0 b1 b2 b3 b4 b5 b6 b7 \<Rightarrow> Char b0 b1 b2 b3 b4 True b6 b7)
              else c)"

fun includes_str :: "string \<Rightarrow> string \<Rightarrow> bool" where
  "includes_str pat [] = (pat = [])"
| "includes_str pat (c # cs) = (take (length pat) (c # cs) = pat \<or> includes_str pat cs)"

definition regex_i :: "string \<Rightarrow> string \<Rightarrow> bool" where
  "regex_i pat s = includes_str (map lower pat) (map lower s)"

text \<open>How the store reads a query object: every assigned key must hold, and the
  \<^verbatim>\<open>$or\<close> key holds when one of its clauses does.  A condition on an array field
  (tags, sharedWith, ratings.userId) holds when some element satisfies it.  The
  pattern matcher \<open>rx\<close> is the store's.\<close>

fun clause_holds :: "(string \<Rightarrow> string \<Rightarrow> bool) \<Rightarrow> clause \<Rightarrow> prompt \<Rightarrow> bool" where
  "clause_holds rx (ByVisibility v) p = (visibility p = v)"
| "clause_holds rx (ByCreator u) p = (creator p = u)"
| "clause_holds rx (BySharedWith u) p = (u \<in> set (sharedWith p))"
| "clause_holds rx (TitleRegex s) p = rx s (title p)"
| "clause_holds rx (DescriptionRegex s) p = rx s (description p)"
| "clause_holds rx (TagsRegex s) p = list_ex (rx s) (tags p)"

definition matches :: "(string \<Rightarrow> string \<Rightarrow> bool) \<Rightarrow> mongo_query \<Rightarrow> prompt \<Rightarrow> bool" where
  "matches rx query p =
     ((case m_visibility query of None \<Rightarrow> True
        | Some (VEq v) \<Rightarrow> visibility p = v
        | Some (VIn vs) \<Rightarrow> visibility p \<in> set vs) \<and>
      (case m_creator query of None \<Rightarrow> True | Some u \<Rightarrow> creator p = u) \<and>
      (case m_ratings_userId query of None \<Rightarrow> True | Some u \<Rightarrow> u \<in> fst ` set (ratings p)) \<and>
      (case m_sharedWith query of None \<Rightarrow> True | Some u \<Rightarrow> u \<in> set (sharedWith p)) \<and>
      (case m_or query of None \<Rightarrow> True | Some cs \<Rightarrow> list_ex (\<lambda>c. clause_holds rx c p) cs) \<and>
      (case m_category query of None \<Rightarrow> True | Some c \<Rightarrow> category p = c))"

section \<open>getPrompts\<close>

definition empty_query :: mongo_query where
  "empty_query = \<lparr>m_visibility = None, m_creator = None, m_ratings_userId = None,
     m_sharedWith = None, m_or = None, m_category = None\<rparr>"

text \<open>Lines 36 to 79 of the controller: the assignments to \<^verbatim>\<open>query\<close>, in the order
  of the source.  Both the accessibleBy branch and the search branch assign the
  key \<^verbatim>\<open>$or\<close>.\<close>

definition getPrompts_query :: "list_query \<Rightarrow> mongo_query" where
  "getPrompts_query q =
     (let query = empty_query;
          query = (case q_visibility q of
                     QArr vs \<Rightarrow> query\<lparr>m_visibility := Some (VIn vs)\<rparr>
                   | QStr v \<Rightarrow> if v \<noteq> [] then query\<lparr>m_visibility := Some (VEq v)\<rparr> else query
                   | QAbsent \<Rightarrow> query);
          query = (if truthy (q_userId q) then query\<lparr>m_creator := q_userId q\<rparr> else query);
          query = (if truthy (q_favorites q)
                   then query\<lparr>m_ratings_userId := q_favorites q\<rparr> else query);
          query = (if truthy (q_sharedWith q)
                   then query\<lparr>m_sharedWith := q_sharedWith q\<rparr> else query);
          query = (if truthy (q_accessibleBy q)
                   then query\<lparr>m_or := Some [ByVisibility ''public'',
                                              ByCreator (the (q_accessibleBy q)),
                                              BySharedWith (the (q_accessibleBy q))]\<rparr>
                   else query);
          query = (if truthy (q_category q) then query\<lparr>m_category := q_category q\<rparr> else query);
          query = (if truthy (q_search q)
                   then query\<lparr>m_or := Some [TitleRegex (the (q_search q)),
                                              DescriptionRegex (the (q_search q)),
                                              TagsRegex (the (q_search q))]\<rparr>
                   else query)
      in query)"

text \<open>\<^verbatim>\<open>Math.ceil(totalCount / limit)\<close>.  A zero limit divides by zero: the quotient is
  not finite and the JSON field is \<^verbatim>\<open>null\<close>, here \<open>None\<close>.\<close>

definition getPrompts_totalPages :: "nat \<Rightarrow> nat \<Rightarrow> nat option" where
  "getPrompts_totalPages totalCount limit =
     (if limit = 0 then None
      else Some (nat \<lceil>(of_nat totalCount :: rat) / of_nat limit\<rceil>))"

text \<open>\<^verbatim>\<open>.limit(n).skip(k)\<close> of the store: a limit of 0 means no limit.\<close>

definition page_of :: "nat \<Rightarrow> nat \<Rightarrow> 'a list \<Rightarrow> 'a list" where
  "page_of limit k xs = (if limit = 0 then drop k xs else take limit (drop k xs))"

text \<open>The handler.  \<open>rx\<close> and \<open>sortBy\<close> are the store's pattern matcher and its
  ordering by a sort key.  With page 0 the skip \<^verbatim>\<open>(page - 1) * limit\<close> is negative;
  the store rejects it and the handler's catch answers 500.\<close>

definition getPrompts ::
  "(string \<Rightarrow> string \<Rightarrow> bool) \<Rightarrow> (string \<Rightarrow> prompt list \<Rightarrow> prompt list) \<Rightarrow>
   store \<Rightarrow> list_query \<Rightarrow> response" where
  "getPrompts rx sortBy st q =
     (let page = (case q_page q of None \<Rightarrow> 1 | Some n \<Rightarrow> n);
          limit = (case q_limit q of None \<Rightarrow> 12 | Some n \<Rightarrow> n);
          sort = (case q_sort q of None \<Rightarrow> ''-createdAt'' | Some s \<Rightarrow> s);
          query = getPrompts_query q;
          found = filter (matches rx query) (prompts st)
      in if page = 0 \<and> 0 < limit
         then \<lparr>status = 500, json = Message ''Error fetching prompts''\<rparr>
         else
           (let page_docs = page_of limit ((page - 1) * limit) (sortBy sort found);
                totalCount = length found;
                totalPages = getPrompts_totalPages totalCount limit
            in \<lparr>status = 200,
                json = Listing \<lparr>res_prompts = map (\<lambda>p. (p, populate (users st) p)) page_docs,
                                res_totalPages = totalPages,
                                res_totalCount = totalCount,
                                res_currentPage = page\<rparr>\<rparr>))"

text \<open>The two disjunctions in the words of the specification.\<close>

definition accessibleBy_group :: "uid \<Rightarrow> prompt \<Rightarrow> bool" where
  "accessibleBy_group u p =
     (visibility p = ''public'' \<or> creator p = u \<or> u \<in> set (sharedWith p))"

definition search_group :: "(string \<Rightarrow> string \<Rightarrow> bool) \<Rightarrow> string \<Rightarrow> prompt \<Rightarrow> bool" where
  "search_group rx s p = (rx s (title p) \<or> rx s (description p) \<or> list_ex (rx s) (tags p))"

definition no_filters :: list_query where
  "no_filters = \<lparr>q_page = None, q_limit = None, q_category = None, q_search = None,
     q_visibility = QAbsent, q_userId = None, q_favorites = None, q_sharedWith = None,
     q_accessibleBy = None, q_sort = None\<rparr>"

definition secret_prompt :: prompt where
  "secret_prompt = \<lparr>pid = ''p1'', creator = ''u1'', title = ''Lint rules'',
     description = ''house style'', category = ''Code'', tags = [], visibility = ''private'',
     sharedWith = [], ratings = [], averageRating = 0\<rparr>"

section \<open>getPromptById\<close>

text \<open>The route is public, so \<^verbatim>\<open>req.userId\<close> may be undefined: the requester is
  optional.  \<^verbatim>\<open>populate\<close> leaves \<^verbatim>\<open>null\<close> for a creator that no longer exists;
  reading \<^verbatim>\<open>prompt.creator._id\<close> then throws and the catch answers 500.  The
  conjunction short-circuits: the creator is read only for a private prompt.\<close>

definition getPromptById :: "store \<Rightarrow> pid \<Rightarrow> uid option \<Rightarrow> response" where
  "getPromptById st i requester =
     (case findById (prompts st) i of
        None \<Rightarrow> \<lparr>status = 404, json = Message ''Prompt not found''\<rparr>
      | Some p \<Rightarrow>
          (let c = populate (users st) p in
           if visibility p = ''private''
           then (case c of
                   None \<Rightarrow> \<lparr>status = 500,
                             json = Message ''Cannot read properties of null (reading '_id')''\<rparr>
                 | Some u \<Rightarrow>
                     if Some (user_id u) \<noteq> requester \<and> requester \<notin> Some ` set (sharedWith p)
                     then \<lparr>status = 403, json = Message ''Access denied''\<rparr>
                     else \<lparr>status = 200, json = Populated p c\<rparr>)
           else \<lparr>status = 200, json = Populated p c\<rparr>))"


section \<open>updatePrompt and deletePrompt\<close>

text \<open>The store's \<^verbatim>\<open>$set\<close> of the supplied fields.\<close>

definition apply_body :: "prompt_body \<Rightarrow> prompt \<Rightarrow> prompt" where
  "apply_body b p =
     p\<lparr>creator := (case b_creator b of None \<Rightarrow> creator p | Some v \<Rightarrow> v),
       title := (case b_title b of None \<Rightarrow> title p | Some v \<Rightarrow> v),
       description := (case b_description b of None \<Rightarrow> description p | Some v \<Rightarrow> v),
       category := (case b_category b of None \<Rightarrow> category p | Some v \<Rightarrow> v),
       tags := (case b_tags b of None \<Rightarrow> tags p | Some v \<Rightarrow> v),
       visibility := (case b_visibility b of None \<Rightarrow> visibility p | Some v \<Rightarrow> v),
       sharedWith := (case b_sharedWith b of None \<Rightarrow> sharedWith p | Some v \<Rightarrow> v)\<rparr>"

fun findByIdAndUpdate :: "pid \<Rightarrow> (prompt \<Rightarrow> prompt) \<Rightarrow> prompt list \<Rightarrow> prompt list" where
  "findByIdAndUpdate i f [] = []"
| "findByIdAndUpdate i f (p # ps) =
     (if pid p = i then f p # ps else p # findByIdAndUpdate i f ps)"

fun remove :: "pid \<Rightarrow> prompt list \<Rightarrow> prompt list" where
  "remove i [] = []"
| "remove i (p # ps) = (if pid p = i then ps else p # remove i ps)"

text \<open>\<open>validators\<close> stands for the schema validation of models/SmartPrompt.js
  (\<^verbatim>\<open>runValidators: true\<close>, and \<^verbatim>\<open>save()\<close> in createPrompt): it returns the message of
  the error it throws, if any.  The catch of updatePrompt answers 400.\<close>

definition updatePrompt ::
  "(prompt_body \<Rightarrow> string option) \<Rightarrow> store \<Rightarrow> pid \<Rightarrow> uid \<Rightarrow> prompt_body \<Rightarrow> response \<times> store" where
  "updatePrompt validators st i userId body =
     (case findById (prompts st) i of
        None \<Rightarrow> (\<lparr>status = 404, json = Message ''Prompt not found''\<rparr>, st)
      | Some p \<Rightarrow>
          if creator p \<noteq> userId
          then (\<lparr>status = 403, json = Message ''Not authorized to update this prompt''\<rparr>, st)
          else (case validators body of
                  Some msg \<Rightarrow> (\<lparr>status = 400, json = Message msg\<rparr>, st)
                | None \<Rightarrow>
                    (let updatedPrompt = apply_body body p
                     in (\<lparr>status = 200,
                          json = Populated updatedPrompt (populate (users st) updatedPrompt)\<rparr>,
                         st\<lparr>prompts := findByIdAndUpdate i (apply_body body) (prompts st)\<rparr>))))"

definition deletePrompt :: "store \<Rightarrow> pid \<Rightarrow> uid \<Rightarrow> response \<times> store" where
  "deletePrompt st i userId =
     (case findById (prompts st) i of
        None \<Rightarrow> (\<lparr>status = 404, json = Message ''Prompt not found''\<rparr>, st)
      | Some p \<Rightarrow>
          if creator p \<noteq> userId
          then (\<lparr>status = 403, json = Message ''Not authorized to delete this prompt''\<rparr>, st)
          else (\<lparr>status = 200, json = Message ''Prompt deleted successfully''\<rparr>,
                st\<lparr>prompts := remove i (prompts st)\<rparr>))"

section \<open>ratePrompt\<close>

text \<open>Modelled from the spec: \<^verbatim>\<open>prompt.addRating\<close> is a method of
  models/SmartPrompt.js, which is not among the sources.  Following the Rating
  Aggregator of the specification: a rater who already rated has that entry
  overwritten in place, otherwise a new entry is appended, and the average is
  recomputed over the full list.\<close>

definition addRating :: "uid \<Rightarrow> rat \<Rightarrow> prompt \<Rightarrow> prompt" where
  "addRating u r p =
     (let rs = (if u \<in> fst ` set (ratings p)
                then map (\<lambda>e. if fst e = u then (u, r) else e) (ratings p)
                else ratings p @ [(u, r)])
      in p\<lparr>ratings := rs, averageRating := sum_list (map snd rs) / of_nat (length rs)\<rparr>)"

text \<open>The body's \<^verbatim>\<open>rating\<close> is a JSON number.  The guard is
  \<^verbatim>\<open>rating < 1 || rating > 5\<close>.\<close>

definition ratePrompt :: "store \<Rightarrow> pid \<Rightarrow> uid \<Rightarrow> rat \<Rightarrow> response \<times> store" where
  "ratePrompt st i userId rating =
     (case findById (prompts st) i of
        None \<Rightarrow> (\<lparr>status = 404, json = Message ''Prompt not found''\<rparr>, st)
      | Some p \<Rightarrow>
          if rating < 1 \<or> rating > 5
          then (\<lparr>status = 400, json = Message ''Rating must be between 1 and 5''\<rparr>, st)
          else (\<lparr>status = 200, json = Doc (addRating userId rating p)\<rparr>,
                st\<lparr>prompts := findByIdAndUpdate i (addRating userId rating) (prompts st)\<rparr>))"

section \<open>createPrompt\<close>

text \<open>\<^verbatim>\<open>{ ...req.body, creator: req.userId }\<close>: the body's fields first, then the
  key \<^verbatim>\<open>creator\<close>.\<close>

definition promptData :: "uid \<Rightarrow> prompt_body \<Rightarrow> prompt_body" where
  "promptData userId body = body\<lparr>b_creator := Some userId\<rparr>"

text \<open>Modelled from the spec: the constructor of models/SmartPrompt.js is not
  among the sources.  Per the Create interface of the specification the supplied
  data gives the fields of the new record; the fields it leaves out come from the
  schema defaults \<open>dflt\<close>, and \<open>newId\<close> is the generated id.\<close>

definition SmartPrompt :: "prompt \<Rightarrow> pid \<Rightarrow> prompt_body \<Rightarrow> prompt" where
  "SmartPrompt dflt newId d = apply_body d (dflt\<lparr>pid := newId\<rparr>)"

definition createPrompt ::
  "(prompt_body \<Rightarrow> string option) \<Rightarrow> prompt \<Rightarrow> pid \<Rightarrow> store \<Rightarrow> uid \<Rightarrow> prompt_body
     \<Rightarrow> response \<times> store" where
  "createPrompt validators dflt newId st userId body =
     (let d = promptData userId body
      in case validators d of
           Some msg \<Rightarrow> (\<lparr>status = 400, json = Message msg\<rparr>, st)
         | None \<Rightarrow>
             (let prompt = SmartPrompt dflt newId d
              in (\<lparr>status = 201, json = Doc prompt\<rparr>,
                  st\<lparr>prompts := prompts st @ [prompt]\<rparr>)))"

section \<open>The client tools container (ToolsProvider)\<close>

text \<open>\<^verbatim>\<open>tool.categories\<close> is read as an array, as a string, or as anything else.\<close>

datatype categories_field =
    NoCategories
  | CategoryArray "string list"
  | CategoryString string
  | CategoryOther

record tool =
  tool_name :: string
  tool_category :: "string option"
  tool_categories :: categories_field

record filters =
  f_search :: string
  f_category :: string
  f_pricing :: string
  f_sort :: string

record cache_entry =
  entry_tools :: "tool list"
  entry_totalPages :: nat

text \<open>\<^verbatim>\<open>JSON.stringify({ ...filters, page: currentPage })\<close> lists the four filter
  fields and the page; it is kept as that tuple, which the string determines.\<close>

type_synonym cache_key = "filters \<times> nat"

record tools_state =
  tools :: "tool list"
  loading :: bool
  error :: "string option"
  filters :: filters
  toolsCache :: "cache_key \<rightharpoonup> cache_entry"
  currentPage :: nat
  totalPages :: nat

record api_params =
  p_category :: "string option"
  p_search :: "string option"
  p_sort :: string
  p_page :: nat
  p_limit :: nat

record api_data =
  data_tools :: "tool list"
  data_total :: nat
  data_pages :: nat

definition cacheKey :: "tools_state \<Rightarrow> cache_key" where
  "cacheKey s = (filters s, currentPage s)"

definition request_params :: "tools_state \<Rightarrow> api_params" where
  "request_params s =
     \<lparr>p_category = (if f_category (filters s) \<noteq> ''all'' then Some (f_category (filters s))
                     else None),
      p_search = (if f_search (filters s) \<noteq> [] then Some (f_search (filters s)) else None),
      p_sort = f_sort (filters s),
      p_page = currentPage s,
      p_limit = 28\<rparr>"

text \<open>loadTools.  \<open>api_get\<close> is the HTTP client: \<open>Inl\<close> is a rejected request, which
  the catch handles.  The result is the new state and the requests issued.\<close>

definition loadTools ::
  "(api_params \<Rightarrow> string + api_data) \<Rightarrow> tools_state \<Rightarrow> tools_state \<times> api_params list" where
  "loadTools api_get s =
     (let s1 = s\<lparr>loading := True, error := None\<rparr>
      in case toolsCache s (cacheKey s) of
           Some e \<Rightarrow>
             (s1\<lparr>tools := entry_tools e, totalPages := entry_totalPages e, loading := False\<rparr>, [])
         | None \<Rightarrow>
             (case api_get (request_params s) of
                Inr d \<Rightarrow>
                  (s1\<lparr>toolsCache := (toolsCache s1)(cacheKey s \<mapsto>
                          \<lparr>entry_tools = data_tools d, entry_totalPages = data_pages d\<rparr>),
                      tools := data_tools d, totalPages := data_pages d, loading := False\<rparr>,
                   [request_params s])
              | Inl err \<Rightarrow>
                  (s1\<lparr>error := Some ''Failed to load tools. Please try again.'',
                      loading := False\<rparr>,
                   [request_params s])))"

text \<open>categoryStats: \<^verbatim>\<open>stats[category] = (stats[category] || 0) + 1\<close> for a truthy
  category, run over \<^verbatim>\<open>tool.category\<close> and then over \<^verbatim>\<open>tool.categories\<close>.\<close>

definition addToStats :: "string \<Rightarrow> (string \<rightharpoonup> nat) \<Rightarrow> (string \<rightharpoonup> nat)" where
  "addToStats c stats =
     (if c \<noteq> [] then stats(c \<mapsto> (case stats c of None \<Rightarrow> 0 | Some n \<Rightarrow> n) + 1) else stats)"

definition tool_stats :: "tool \<Rightarrow> (string \<rightharpoonup> nat) \<Rightarrow> (string \<rightharpoonup> nat)" where
  "tool_stats t stats =
     (let stats = (if truthy (tool_category t) then addToStats (the (tool_category t)) stats
                   else stats)
      in case tool_categories t of
           CategoryArray cs \<Rightarrow> fold addToStats cs stats
         | CategoryString c \<Rightarrow> (if c \<noteq> [] then addToStats c stats else stats)
         | NoCategories \<Rightarrow> stats
         | CategoryOther \<Rightarrow> stats)"

definition categoryStats :: "tool list \<Rightarrow> (string \<rightharpoonup> nat)" where
  "categoryStats ts = fold tool_stats ts Map.empty"

text \<open>The count in the words of the specification: the loaded records whose
  category or categories fields contain \<open>c\<close>, each counted once.\<close>

definition has_category :: "string \<Rightarrow> tool \<Rightarrow> bool" where
  "has_category c t =
     (tool_category t = Some c \<or>
      (case tool_categories t of
         CategoryArray cs \<Rightarrow> c \<in> set cs
       | CategoryString c' \<Rightarrow> c' = c
       | NoCategories \<Rightarrow> False
       | CategoryOther \<Rightarrow> False))"

definition records_with_category :: "string \<Rightarrow> tool list \<Rightarrow> nat" where
  "records_with_category c ts = length (filter (has_category c) ts)"

text \<open>The number of times the fields of a record name \<open>c\<close>.\<close>

definition mentions :: "string \<Rightarrow> tool \<Rightarrow> nat" where
  "mentions c t =
     (if tool_category t = Some c then 1 else 0) +
     (case tool_categories t of
        CategoryArray cs \<Rightarrow> count_list cs c
      | CategoryString c' \<Rightarrow> (if c' = c then 1 else 0)
      | NoCategories \<Rightarrow> 0
      | CategoryOther \<Rightarrow> 0)"

text \<open>Reading a count off the stats object, a missing key counting as 0.\<close>

definition stat_count :: "(string \<rightharpoonup> nat) \<Rightarrow> string \<Rightarrow> nat" where
  "stat_count stats c = (case stats c of None \<Rightarrow> 0 | Some n \<Rightarrow> n)"

section \<open>Sample data\<close>

definition alice :: user where
  "alice = \<lparr>user_id = ''u1'', username = ''alice'', email = ''alice@example.org''\<rparr>"

definition unlisted_prompt :: prompt where
  "unlisted_prompt = secret_prompt\<lparr>pid := ''p2'', visibility := ''shared''\<rparr>"

definition sample_store :: store where
  "sample_store = \<lparr>prompts = [secret_prompt, unlisted_prompt], users = [alice]\<rparr>"

definition no_body :: prompt_body where
  "no_body = \<lparr>b_creator = None, b_title = None, b_description = None, b_category = None,
     b_tags = None, b_visibility = None, b_sharedWith = None\<rparr>"

definition accept_all :: "prompt_body \<Rightarrow> string option" where
  "accept_all b = None"

definition default_filters :: filters where
  "default_filters = \<lparr>f_search = [], f_category = ''all'', f_pricing = ''all'',
     f_sort = ''rating-desc''\<rparr>"

definition initial_state :: tools_state where
  "initial_state = \<lparr>tools = [], loading = True, error = None, filters = default_filters,
     toolsCache = Map.empty, currentPage = 1, totalPages = 1\<rparr>"

definition code_tool :: tool where
  "code_tool = \<lparr>tool_name = ''Linter'', tool_category = Some ''Code'',
     tool_categories = CategoryArray [''Code'']\<rparr>"

definition one_page :: "api_params \<Rightarrow> string + api_data" where
  "one_page ps = Inr \<lparr>data_tools = [code_tool], data_total = 1, data_pages = 1\<rparr>"

definition cached_state :: tools_state where
  "cached_state = initial_state\<lparr>toolsCache :=
     [(default_filters, 1) \<mapsto> \<lparr>entry_tools = [code_tool], entry_totalPages = 3\<rparr>]\<rparr>"

definition offline :: "api_params \<Rightarrow> string + api_data" where
  "offline ps = Inl ''Network Error''"

section \<open>Properties of getPrompts\<close>

lemma getPrompts_query_search_or:
  "truthy (q_search q) \<Longrightarrow>
   m_or (getPrompts_query q) =
     Some [TitleRegex (the (q_search q)), DescriptionRegex (the (q_search q)),
           TagsRegex (the (q_search q))]"
  by (simp add: getPrompts_query_def Let_def)

lemma getPrompts_query_ignores_accessibleBy:
  "truthy (q_search q) \<Longrightarrow>
   getPrompts_query (q\<lparr>q_accessibleBy := a\<rparr>) = getPrompts_query q"
  by (simp add: getPrompts_query_def Let_def)

lemma getPrompts_query_search_group:
  assumes "truthy (q_search q)"
  shows "matches rx (getPrompts_query q) p \<Longrightarrow> search_group rx (the (q_search q)) p"
  using getPrompts_query_search_or [OF assms]
  by (simp add: matches_def search_group_def)

lemma getPrompts_query_accessibleBy_group:
  assumes "truthy (q_accessibleBy q)" and "\<not> truthy (q_search q)"
  shows "matches rx (getPrompts_query q) p \<Longrightarrow> accessibleBy_group (the (q_accessibleBy q)) p"
proof -
  have "m_or (getPrompts_query q) =
      Some [ByVisibility ''public'', ByCreator (the (q_accessibleBy q)),
            BySharedWith (the (q_accessibleBy q))]"
    using assms by (simp add: getPrompts_query_def Let_def)
  then show "matches rx (getPrompts_query q) p \<Longrightarrow> accessibleBy_group (the (q_accessibleBy q)) p"
    by (simp add: matches_def accessibleBy_group_def)
qed

lemma regex_i_lint: "regex_i ''lint'' ''Lint rules''"
  by (simp add: regex_i_def lower_def)

text \<open>
  Claim C1, at the input where it fails.  The filter set carries both
  \<^verbatim>\<open>accessibleBy = u2\<close> and \<^verbatim>\<open>search = lint\<close>.  The query that getPrompts builds
  keeps only the search clauses under \<^verbatim>\<open>$or\<close>, so a private prompt of user u1,
  shared with nobody, matches although it is outside the accessibleBy
  disjunction for u2.
\<close>

theorem getPrompts_search_overwrites_accessibleBy:
  "m_or (getPrompts_query (no_filters\<lparr>q_accessibleBy := Some ''u2'', q_search := Some ''lint''\<rparr>))
     = Some [TitleRegex ''lint'', DescriptionRegex ''lint'', TagsRegex ''lint'']
   \<and> matches regex_i
       (getPrompts_query (no_filters\<lparr>q_accessibleBy := Some ''u2'', q_search := Some ''lint''\<rparr>))
       secret_prompt
   \<and> \<not> accessibleBy_group ''u2'' secret_prompt"
  by (simp add: getPrompts_query_def no_filters_def empty_query_def truthy_def matches_def
      secret_prompt_def accessibleBy_group_def regex_i_lint)

lemma ceiling_ratio_pos:
  "0 < l \<Longrightarrow> 0 < c \<Longrightarrow> 1 \<le> nat \<lceil>(of_nat c :: rat) / of_nat l\<rceil>"
  by (simp add: Suc_le_eq)

lemma getPrompts_listing:
  assumes "0 < (case q_page q of None \<Rightarrow> 1 | Some n \<Rightarrow> n)"
  shows "json (getPrompts rx sortBy st q) =
     Listing \<lparr>res_prompts =
                map (\<lambda>p. (p, populate (users st) p))
                  (page_of (case q_limit q of None \<Rightarrow> 12 | Some n \<Rightarrow> n)
                     (((case q_page q of None \<Rightarrow> 1 | Some n \<Rightarrow> n) - 1) *
                      (case q_limit q of None \<Rightarrow> 12 | Some n \<Rightarrow> n))
                     (sortBy (case q_sort q of None \<Rightarrow> ''-createdAt'' | Some s \<Rightarrow> s)
                        (filter (matches rx (getPrompts_query q)) (prompts st)))),
              res_totalPages =
                getPrompts_totalPages
                  (length (filter (matches rx (getPrompts_query q)) (prompts st)))
                  (case q_limit q of None \<Rightarrow> 12 | Some n \<Rightarrow> n),
              res_totalCount = length (filter (matches rx (getPrompts_query q)) (prompts st)),
              res_currentPage = (case q_page q of None \<Rightarrow> 1 | Some n \<Rightarrow> n)\<rparr>"
  using assms by (simp add: getPrompts_def Let_def)

text \<open>
  Claim C4 as stated fails when nothing matches: listing an empty store with the
  default page size reports totalCount 0 and totalPages 0, where the claim
  requires max(1, ceil(0 / 12)) = 1.
\<close>

theorem getPrompts_totalPages_empty_counterexample:
  "json (getPrompts regex_i (\<lambda>k ps. ps) \<lparr>prompts = [], users = []\<rparr> no_filters) =
     Listing \<lparr>res_prompts = [], res_totalPages = Some 0, res_totalCount = 0,
              res_currentPage = 1\<rparr>
   \<and> Some (0::nat) \<noteq> Some (max 1 (nat \<lceil>(of_nat 0 :: rat) / of_nat 12\<rceil>))"
  by (simp add: getPrompts_def no_filters_def Let_def page_of_def getPrompts_totalPages_def)

text \<open>
  Claim C4 as amended: for every store and every listing request with a positive
  page size \<open>limit\<close> (and a page of at least 1), the response reports
  totalPages = ceil(totalCount / limit), where totalCount is the number of
  matching records.  This is 0 when totalCount is 0, and it equals
  max(1, ceil(totalCount / limit)) whenever totalCount is at least 1.
\<close>

theorem getPrompts_totalPages_ceiling:
  assumes "limit = (case q_limit q of None \<Rightarrow> 12 | Some n \<Rightarrow> n)"
    and "0 < limit"
    and "0 < (case q_page q of None \<Rightarrow> 1 | Some n \<Rightarrow> n)"
  shows "\<exists>l. json (getPrompts rx sortBy st q) = Listing l \<and>
           res_totalCount l = length (filter (matches rx (getPrompts_query q)) (prompts st)) \<and>
           res_totalPages l = Some (nat \<lceil>(of_nat (res_totalCount l) :: rat) / of_nat limit\<rceil>) \<and>
           (if res_totalCount l = 0 then res_totalPages l = Some 0
            else res_totalPages l =
                   Some (max 1 (nat \<lceil>(of_nat (res_totalCount l) :: rat) / of_nat limit\<rceil>)))"
proof -
  let ?n = "length (filter (matches rx (getPrompts_query q)) (prompts st))"
  have pages: "getPrompts_totalPages ?n limit = Some (nat \<lceil>(of_nat ?n :: rat) / of_nat limit\<rceil>)"
    using assms(2) by (simp add: getPrompts_totalPages_def)
  have "0 < ?n \<Longrightarrow> max 1 (nat \<lceil>(of_nat ?n :: rat) / of_nat limit\<rceil>)
                   = nat \<lceil>(of_nat ?n :: rat) / of_nat limit\<rceil>"
    using ceiling_ratio_pos [OF assms(2), of ?n] by (simp add: max_def)
  then show ?thesis
    using getPrompts_listing [OF assms(3), of rx sortBy st] pages assms(1) by auto
qed

theorem getPrompts_totalPages_ceiling_witness:
  "\<exists>l. json (getPrompts regex_i (\<lambda>k ps. ps) sample_store (no_filters\<lparr>q_limit := Some 1\<rparr>))
          = Listing l \<and>
        res_totalCount l = 2 \<and> res_totalPages l = Some 2"
proof -
  have q: "(1::nat) = (case q_limit (no_filters\<lparr>q_limit := Some 1\<rparr>) of None \<Rightarrow> 12 | Some n \<Rightarrow> n)"
    by (simp add: no_filters_def)
  have p: "0 < (case q_page (no_filters\<lparr>q_limit := Some 1\<rparr>) of None \<Rightarrow> (1::nat) | Some n \<Rightarrow> n)"
    by (simp add: no_filters_def)
  have n: "length (filter (matches regex_i (getPrompts_query (no_filters\<lparr>q_limit := Some 1\<rparr>)))
             (prompts sample_store)) = 2"
    by (simp add: sample_store_def getPrompts_query_def no_filters_def empty_query_def
        truthy_def matches_def)
  from getPrompts_totalPages_ceiling [OF q _ p, of regex_i "\<lambda>k ps. ps" sample_store]
  obtain l where l: "json (getPrompts regex_i (\<lambda>k ps. ps) sample_store
        (no_filters\<lparr>q_limit := Some 1\<rparr>)) = Listing l"
    "res_totalCount l = length (filter (matches regex_i
        (getPrompts_query (no_filters\<lparr>q_limit := Some 1\<rparr>))) (prompts sample_store))"
    "res_totalPages l = Some (nat \<lceil>(of_nat (res_totalCount l) :: rat) / of_nat 1\<rceil>)"
    by auto
  from l(2) have c: "res_totalCount l = 2" by (simp only: n)
  from l(3) have "res_totalPages l = Some 2" by (simp add: c)
  with l(1) c show ?thesis by blast
qed

section \<open>Properties of the single-record handlers\<close>

lemma findById_sample_p1: "findById (prompts sample_store) ''p1'' = Some secret_prompt"
  by (simp add: findById_def sample_store_def secret_prompt_def unlisted_prompt_def)


lemma findById_sample_none: "findById (prompts sample_store) ''p9'' = None"
  by (simp add: findById_def sample_store_def secret_prompt_def unlisted_prompt_def)

lemma populate_sample_p1: "populate (users sample_store) secret_prompt = Some alice"
  by (simp add: populate_def sample_store_def secret_prompt_def alice_def)






text \<open>
  Claim C3: for every existing record, every patch and every requester other
  than the record's owner, update and delete answer 403 and return the store
  as it was, so every field of the record is unchanged.  The test reads the
  owner of the stored record; the patch is not consulted.
\<close>

theorem non_owner_mutation_forbidden:
  assumes "findById (prompts st) i = Some p"
    and "creator p \<noteq> userId"
  shows "updatePrompt validators st i userId body =
           (\<lparr>status = 403, json = Message ''Not authorized to update this prompt''\<rparr>, st)
         \<and> deletePrompt st i userId =
           (\<lparr>status = 403, json = Message ''Not authorized to delete this prompt''\<rparr>, st)
         \<and> findById (prompts (snd (updatePrompt validators st i userId body))) i = Some p
         \<and> findById (prompts (snd (deletePrompt st i userId))) i = Some p"
  using assms by (simp add: updatePrompt_def deletePrompt_def)

theorem non_owner_mutation_forbidden_witness:
  "updatePrompt accept_all sample_store ''p1'' ''u2'' (no_body\<lparr>b_creator := Some ''u2''\<rparr>) =
     (\<lparr>status = 403, json = Message ''Not authorized to update this prompt''\<rparr>, sample_store)
   \<and> deletePrompt sample_store ''p1'' ''u2'' =
     (\<lparr>status = 403, json = Message ''Not authorized to delete this prompt''\<rparr>, sample_store)"
proof -
  have "creator secret_prompt \<noteq> ''u2''"
    by (simp add: secret_prompt_def)
  from non_owner_mutation_forbidden [OF findById_sample_p1 this]
  show ?thesis by simp
qed








text \<open>
  Claim C6: in the single-record fetch, update, delete and rate, an id that does
  not resolve is answered 404 "Prompt not found" whatever the requester, patch
  or rating, with the store unchanged; an answer of 403 from any of them
  implies that the id resolved.  The two outcomes carry different status codes,
  and 404 is also distinct from the 400 of a validation error.
\<close>

theorem not_found_first:
  "(findById (prompts st) i = None \<longrightarrow>
      getPromptById st i requester = \<lparr>status = 404, json = Message ''Prompt not found''\<rparr> \<and>
      updatePrompt validators st i userId body =
        (\<lparr>status = 404, json = Message ''Prompt not found''\<rparr>, st) \<and>
      deletePrompt st i userId = (\<lparr>status = 404, json = Message ''Prompt not found''\<rparr>, st) \<and>
      ratePrompt st i userId rating = (\<lparr>status = 404, json = Message ''Prompt not found''\<rparr>, st))
   \<and> (status (getPromptById st i requester) = 403 \<or>
       status (fst (updatePrompt validators st i userId body)) = 403 \<or>
       status (fst (deletePrompt st i userId)) = 403 \<or>
       status (fst (ratePrompt st i userId rating)) = 403
       \<longrightarrow> findById (prompts st) i \<noteq> None)
   \<and> status \<lparr>status = 404, json = Message ''Prompt not found''\<rparr> \<noteq> 403
   \<and> status \<lparr>status = 404, json = Message ''Prompt not found''\<rparr> \<noteq> 400"
proof (cases "findById (prompts st) i")
  case None
  then show ?thesis
    by (simp add: getPromptById_def updatePrompt_def deletePrompt_def ratePrompt_def)
next
  case (Some p)
  then show ?thesis by simp
qed

theorem not_found_first_witness:
  "getPromptById sample_store ''p9'' (Some ''u1'') =
     \<lparr>status = 404, json = Message ''Prompt not found''\<rparr>
   \<and> updatePrompt accept_all sample_store ''p9'' ''u1'' no_body =
     (\<lparr>status = 404, json = Message ''Prompt not found''\<rparr>, sample_store)
   \<and> deletePrompt sample_store ''p9'' ''u1'' =
     (\<lparr>status = 404, json = Message ''Prompt not found''\<rparr>, sample_store)
   \<and> ratePrompt sample_store ''p9'' ''u1'' 9 =
     (\<lparr>status = 404, json = Message ''Prompt not found''\<rparr>, sample_store)
   \<and> status (getPromptById sample_store ''p1'' (Some ''u3'')) = 403
   \<and> findById (prompts sample_store) ''p1'' \<noteq> None"
proof -
  have forbidden: "status (getPromptById sample_store ''p1'' (Some ''u3'')) = 403"
    by (simp add: getPromptById_def Let_def findById_sample_p1 populate_sample_p1)
       (simp add: secret_prompt_def alice_def)
  from not_found_first [of sample_store "''p9''" "Some ''u1''" accept_all "''u1''" no_body 9]
    not_found_first [of sample_store "''p1''" "Some ''u3''" accept_all "''u1''" no_body 9]
    findById_sample_none forbidden
  show ?thesis by simp
qed

text \<open>
  Claim C10: the data handed to the model carries the requester's id as creator
  whatever the body holds under that key; when the record is stored, the answer
  is 201, the stored and returned record's creator is the requester, and it is
  the one record added to the store.  When validation rejects the data the
  store is unchanged.
\<close>

theorem createPrompt_creator:
  "b_creator (promptData userId body) = Some userId
   \<and> (case validators (promptData userId body) of
        None \<Rightarrow>
          (\<exists>p. createPrompt validators dflt newId st userId body =
                  (\<lparr>status = 201, json = Doc p\<rparr>, st\<lparr>prompts := prompts st @ [p]\<rparr>) \<and>
               creator p = userId)
      | Some msg \<Rightarrow>
          createPrompt validators dflt newId st userId body =
            (\<lparr>status = 400, json = Message msg\<rparr>, st))"
  by (simp add: createPrompt_def promptData_def SmartPrompt_def apply_body_def Let_def
      split: option.split)

theorem createPrompt_creator_witness:
  "\<exists>p. createPrompt accept_all secret_prompt ''p3'' sample_store ''u2''
          (no_body\<lparr>b_creator := Some ''mallory'', b_title := Some ''Hello''\<rparr>) =
        (\<lparr>status = 201, json = Doc p\<rparr>, sample_store\<lparr>prompts := prompts sample_store @ [p]\<rparr>)
      \<and> creator p = ''u2''"
  using createPrompt_creator [of "''u2''" "no_body\<lparr>b_creator := Some ''mallory'',
      b_title := Some ''Hello''\<rparr>" accept_all secret_prompt "''p3''" sample_store]
  by (simp add: accept_all_def)

section \<open>Properties of the client tools container\<close>

text \<open>
  Claim C7: when the cache holds an entry under the key of the current filters
  and page, loadTools serves that entry's tools and totalPages, issues no
  request and leaves the cache as it is.  When the key is absent it issues
  exactly one request, for the current page; when that request succeeds the
  result is stored under the key, and loading the same combination again, with
  any behaviour of the network, is a cache hit: no request is issued and the
  same tools and totalPages are served.
\<close>

theorem loadTools_cache:
  "(toolsCache s (cacheKey s) = Some e \<longrightarrow>
      loadTools api_get s =
        (s\<lparr>loading := False, error := None, tools := entry_tools e,
           totalPages := entry_totalPages e\<rparr>, []))
   \<and> (toolsCache s (cacheKey s) = None \<longrightarrow>
        snd (loadTools api_get s) = [request_params s] \<and>
        p_page (request_params s) = currentPage s)
   \<and> (toolsCache s (cacheKey s) = None \<and> api_get (request_params s) = Inr d \<longrightarrow>
        toolsCache (fst (loadTools api_get s)) =
          (toolsCache s)(cacheKey s \<mapsto>
             \<lparr>entry_tools = data_tools d, entry_totalPages = data_pages d\<rparr>) \<and>
        tools (fst (loadTools api_get s)) = data_tools d \<and>
        totalPages (fst (loadTools api_get s)) = data_pages d \<and>
        cacheKey (fst (loadTools api_get s)) = cacheKey s \<and>
        snd (loadTools api_get' (fst (loadTools api_get s))) = [] \<and>
        tools (fst (loadTools api_get' (fst (loadTools api_get s)))) = data_tools d \<and>
        totalPages (fst (loadTools api_get' (fst (loadTools api_get s)))) = data_pages d)"
proof -
  have hit: "toolsCache s (cacheKey s) = Some e \<Longrightarrow>
      loadTools api_get s =
        (s\<lparr>loading := False, error := None, tools := entry_tools e,
           totalPages := entry_totalPages e\<rparr>, [])"
    by (simp add: loadTools_def Let_def)
  have request: "toolsCache s (cacheKey s) = None \<Longrightarrow>
      snd (loadTools api_get s) = [request_params s]"
    by (simp add: loadTools_def Let_def split: sum.split)
  have page: "p_page (request_params s) = currentPage s"
    by (simp add: request_params_def)
  have fetched: "loadTools api_get s =
      (s\<lparr>loading := False, error := None,
         toolsCache := (toolsCache s)(cacheKey s \<mapsto>
           \<lparr>entry_tools = data_tools d, entry_totalPages = data_pages d\<rparr>),
         tools := data_tools d, totalPages := data_pages d\<rparr>, [request_params s])"
    if "toolsCache s (cacheKey s) = None" "api_get (request_params s) = Inr d"
    using that by (simp add: loadTools_def Let_def)
  have again: "toolsCache s (cacheKey s) = None \<Longrightarrow> api_get (request_params s) = Inr d \<Longrightarrow>
      loadTools api_get' (fst (loadTools api_get s)) =
        (fst (loadTools api_get s)\<lparr>loading := False, error := None\<rparr>, [])"
    by (simp add: fetched) (simp add: loadTools_def Let_def cacheKey_def)
  show ?thesis
    using hit request page
    by (auto simp: again) (simp_all add: fetched cacheKey_def)
qed

theorem loadTools_cache_witness:
  "loadTools offline cached_state =
     (cached_state\<lparr>loading := False, error := None, tools := [code_tool], totalPages := 3\<rparr>, [])
   \<and> snd (loadTools one_page initial_state) = [request_params initial_state]
   \<and> tools (fst (loadTools one_page initial_state)) = [code_tool]
   \<and> snd (loadTools offline (fst (loadTools one_page initial_state))) = []
   \<and> tools (fst (loadTools offline (fst (loadTools one_page initial_state)))) = [code_tool]"
proof -
  have hit: "toolsCache cached_state (cacheKey cached_state) =
      Some \<lparr>entry_tools = [code_tool], entry_totalPages = 3\<rparr>"
    by (simp add: cached_state_def initial_state_def cacheKey_def)
  have miss: "toolsCache initial_state (cacheKey initial_state) = None"
    by (simp add: initial_state_def)
  have ok: "one_page (request_params initial_state) =
      Inr \<lparr>data_tools = [code_tool], data_total = 1, data_pages = 1\<rparr>"
    by (simp add: one_page_def)
  from loadTools_cache [where s = cached_state and api_get = offline
        and e = "\<lparr>entry_tools = [code_tool], entry_totalPages = 3\<rparr>"]
    loadTools_cache [where s = initial_state and api_get = one_page and api_get' = offline
        and d = "\<lparr>data_tools = [code_tool], data_total = 1, data_pages = 1\<rparr>"]
    hit miss ok
  show ?thesis by simp
qed

text \<open>
  Claim C8: when the request of loadTools fails, the state afterwards carries
  the error message "Failed to load tools. Please try again.", loading is off,
  and the cache, the displayed tools and totalPages are what they were; in
  particular every cached entry is still there.
\<close>

theorem loadTools_fetch_failure:
  assumes "toolsCache s (cacheKey s) = None"
    and "api_get (request_params s) = Inl err"
  shows "error (fst (loadTools api_get s)) = Some ''Failed to load tools. Please try again.''
       \<and> loading (fst (loadTools api_get s)) = False
       \<and> toolsCache (fst (loadTools api_get s)) = toolsCache s
       \<and> tools (fst (loadTools api_get s)) = tools s
       \<and> totalPages (fst (loadTools api_get s)) = totalPages s"
  using assms by (simp add: loadTools_def Let_def)

theorem loadTools_fetch_failure_witness:
  "error (fst (loadTools offline
       (cached_state\<lparr>currentPage := 2, tools := [code_tool]\<rparr>))) =
     Some ''Failed to load tools. Please try again.''
   \<and> toolsCache (fst (loadTools offline (cached_state\<lparr>currentPage := 2, tools := [code_tool]\<rparr>)))
       (default_filters, 1) = Some \<lparr>entry_tools = [code_tool], entry_totalPages = 3\<rparr>
   \<and> tools (fst (loadTools offline (cached_state\<lparr>currentPage := 2, tools := [code_tool]\<rparr>)))
       = [code_tool]"
proof -
  have miss: "toolsCache (cached_state\<lparr>currentPage := 2, tools := [code_tool]\<rparr>)
      (cacheKey (cached_state\<lparr>currentPage := 2, tools := [code_tool]\<rparr>)) = None"
    by (simp add: cached_state_def initial_state_def cacheKey_def)
  have down: "offline (request_params (cached_state\<lparr>currentPage := 2, tools := [code_tool]\<rparr>))
      = Inl ''Network Error''"
    by (simp add: offline_def)
  from loadTools_fetch_failure
    [of "cached_state\<lparr>currentPage := 2, tools := [code_tool]\<rparr>" offline, OF miss down]
  show ?thesis by (simp add: cached_state_def initial_state_def)
qed

lemma count_addToStats:
  "c \<noteq> [] \<Longrightarrow> stat_count (addToStats c' stats) c = stat_count stats c + (if c' = c then 1 else 0)"
  by (simp add: addToStats_def stat_count_def)

lemma count_fold_addToStats:
  "c \<noteq> [] \<Longrightarrow> stat_count (fold addToStats cs stats) c = stat_count stats c + count_list cs c"
  by (induction cs arbitrary: stats) (simp_all add: count_addToStats)

lemma count_tool_stats:
  "c \<noteq> [] \<Longrightarrow> stat_count (tool_stats t stats) c = stat_count stats c + mentions c t"
  by (cases "tool_categories t"; cases "tool_category t")
     (auto simp: tool_stats_def mentions_def truthy_def count_addToStats count_fold_addToStats)

lemma count_fold_tool_stats:
  "c \<noteq> [] \<Longrightarrow>
   stat_count (fold tool_stats ts stats) c = stat_count stats c + sum_list (map (mentions c) ts)"
  by (induction ts arbitrary: stats) (simp_all add: count_tool_stats)

lemma categoryStats_counts_mentions:
  "c \<noteq> [] \<Longrightarrow> stat_count (categoryStats ts) c = sum_list (map (mentions c) ts)"
  by (simp add: categoryStats_def count_fold_tool_stats) (simp add: stat_count_def)

lemma count_list_member: "x \<in> set xs \<Longrightarrow> count_list xs x \<le> 1 \<Longrightarrow> count_list xs x = 1"
  using count_list_0_iff [of xs x] by linarith

lemma mentions_once:
  "mentions c t \<le> 1 \<Longrightarrow> mentions c t = (if has_category c t then 1 else 0)"
  by (cases "tool_categories t")
     (auto simp: mentions_def has_category_def count_list_0_iff count_list_member
        split: if_splits)

lemma categoryStats_records_when_single:
  "c \<noteq> [] \<Longrightarrow> list_all (\<lambda>t. mentions c t \<le> 1) ts \<Longrightarrow>
   stat_count (categoryStats ts) c = records_with_category c ts"
proof -
  have "list_all (\<lambda>t. mentions c t \<le> 1) ts \<Longrightarrow>
      sum_list (map (mentions c) ts) = length (filter (has_category c) ts)"
    by (induction ts) (simp_all add: mentions_once)
  then show "c \<noteq> [] \<Longrightarrow> list_all (\<lambda>t. mentions c t \<le> 1) ts \<Longrightarrow>
      stat_count (categoryStats ts) c = records_with_category c ts"
    by (simp add: categoryStats_counts_mentions records_with_category_def)
qed

text \<open>
  Claim C9, at the input where it fails.  One loaded record names the category
  Code both in \<^verbatim>\<open>category\<close> and in \<^verbatim>\<open>categories\<close>: categoryStats maps Code to 2,
  while exactly one loaded record contains it.
\<close>

theorem categoryStats_double_count:
  "categoryStats [code_tool] ''Code'' = Some 2
   \<and> records_with_category ''Code'' [code_tool] = 1"
  by (simp add: categoryStats_def tool_stats_def code_tool_def truthy_def addToStats_def
      records_with_category_def has_category_def)

end
